theory Spec2Isabelle
  imports Complex_Main
begin

section \<open>The arithmetic-language compiler of \<^verbatim>\<open>midterm/compiler.py\<close>\<close>

text \<open>
  The program is a four-stage pipeline: a lazy lexer, a recursive-descent parser that
  pulls tokens from it, a code generator that appends stack-machine instructions to a
  bytecode list, and a virtual machine that runs the bytecode. Each stage is embedded
  below as a HOL function that follows the Python text statement by statement.

  Conventions of the embedding:
  \<^item> a Python exception is a value of type \<open>error\<close>, returned as \<open>Inl\<close>;
  \<^item> Python's \<open>int\<close> is HOL's unbounded \<open>int\<close>;
  \<^item> a Python string is a \<open>string\<close>, each \<open>char\<close> read as the code point of the same
    number (0 to 255);
  \<^item> the operand stack \<open>self.stack\<close> is a list whose head is the top of the stack
    (\<open>append\<close> is \<open>#\<close>, \<open>pop\<close> takes the head);
  \<^item> what \<open>print\<close> writes is collected, line by line, in the field \<open>printed\<close>.
\<close>

subsection \<open>Token types and errors\<close>

text \<open>The eleven token type constants of the source (line 4), prefixed with \<open>T_\<close>.\<close>

datatype toktype =
  T_NUMBER | T_PLUS | T_MINUS | T_TIMES | T_DIVIDE | T_LPAREN | T_RPAREN
  | T_IDENT | T_ASSIGN | T_PRINT | T_EOF

text \<open>The string each constant is bound to: it is what error messages and dictionary keys show.\<close>

fun name_of :: "toktype \<Rightarrow> string" where
  "name_of T_NUMBER = ''NUMBER''"
| "name_of T_PLUS = ''PLUS''"
| "name_of T_MINUS = ''MINUS''"
| "name_of T_TIMES = ''TIMES''"
| "name_of T_DIVIDE = ''DIVIDE''"
| "name_of T_LPAREN = ''LPAREN''"
| "name_of T_RPAREN = ''RPAREN''"
| "name_of T_IDENT = ''IDENT''"
| "name_of T_ASSIGN = ''ASSIGN''"
| "name_of T_PRINT = ''PRINT''"
| "name_of T_EOF = ''EOF''"

text \<open>
  The exceptions the program can raise:
  \<^item> \<open>UnknownCharacter c\<close> is \<^verbatim>\<open>Exception(f"Unknown character: {char}")\<close> (line 56);
  \<^item> \<open>ExpectedGot t u\<close> is \<^verbatim>\<open>Exception(f"Expected {token_type}, got {self.token.type}")\<close>
    (line 75);
  \<^item> \<open>ValueError\<close> is raised by \<^verbatim>\<open>int(...)\<close> (line 36) on a digit that is not a decimal digit;
  \<^item> \<open>TypeError\<close> is raised by \<^verbatim>\<open>node[0]\<close> (line 133) when \<open>node\<close> is \<open>None\<close>;
  \<^item> \<open>KeyError k\<close> is raised by a dictionary lookup of a missing key \<open>k\<close> (lines 143, 165);
  \<^item> \<open>IndexError\<close> is raised by \<^verbatim>\<open>pop()\<close> on an empty list (lines 167 to 182);
  \<^item> \<open>ZeroDivisionError\<close> is raised by \<^verbatim>\<open>a // b\<close> when \<open>b\<close> is zero (line 180).
\<close>

datatype error =
  UnknownCharacter char
  | ExpectedGot toktype toktype
  | ValueError
  | TypeError
  | KeyError string
  | IndexError
  | ZeroDivisionError

subsection \<open>Abstract syntax\<close>

text \<open>
  AST nodes are the tuples \<^verbatim>\<open>('number', val)\<close>, \<^verbatim>\<open>('var', name)\<close>,
  \<^verbatim>\<open>('binop', op, left, right)\<close>, \<^verbatim>\<open>('assign', name, expr)\<close>, \<^verbatim>\<open>('print', expr)\<close>, and
  \<open>None\<close>, which \<open>factor\<close> and \<open>statement\<close> return when no branch of theirs applies.
  The operator of a \<open>binop\<close> node is a token type.
\<close>

datatype node =
  Number int
  | Var string
  | BinOp toktype node node
  | Assign string node
  | Print node
  | NoneNode

subsection \<open>Bytecode and the code generator\<close>

datatype instr = PUSH int | LOAD string | STORE string | ADD | SUB | MUL | DIV | PRINT

text \<open>The dictionary \<open>ops\<close> of line 142.\<close>

fun ops :: "toktype \<Rightarrow> instr option" where
  "ops T_PLUS = Some ADD"
| "ops T_MINUS = Some SUB"
| "ops T_TIMES = Some MUL"
| "ops T_DIVIDE = Some DIV"
| "ops _ = None"

text \<open>
  \<open>CodeGen.gen\<close>: the second argument is \<open>self.bytecode\<close> before the call, the result is
  \<open>self.bytecode\<close> after it.
\<close>

fun gen :: "node \<Rightarrow> instr list \<Rightarrow> error + instr list" where
  "gen (Number v) bc = Inr (bc @ [PUSH v])"
| "gen (Var n) bc = Inr (bc @ [LOAD n])"
| "gen (BinOp op l r) bc =
     (case gen l bc of
        Inl e \<Rightarrow> Inl e
      | Inr bc1 \<Rightarrow>
          (case gen r bc1 of
             Inl e \<Rightarrow> Inl e
           | Inr bc2 \<Rightarrow>
               (case ops op of
                  None \<Rightarrow> Inl (KeyError (name_of op))
                | Some i \<Rightarrow> Inr (bc2 @ [i]))))"
| "gen (Assign name e) bc =
     (case gen e bc of Inl err \<Rightarrow> Inl err | Inr bc1 \<Rightarrow> Inr (bc1 @ [STORE name]))"
| "gen (Print e) bc =
     (case gen e bc of Inl err \<Rightarrow> Inl err | Inr bc1 \<Rightarrow> Inr (bc1 @ [PRINT]))"
| "gen NoneNode bc = Inl TypeError"

text \<open>The loop \<^verbatim>\<open>for stmt in ast: codegen.gen(stmt)\<close> of \<open>run_compiler\<close>.\<close>

fun gen_all :: "node list \<Rightarrow> instr list \<Rightarrow> error + instr list" where
  "gen_all [] bc = Inr bc"
| "gen_all (stmt # ast) bc =
     (case gen stmt bc of Inl e \<Rightarrow> Inl e | Inr bc1 \<Rightarrow> gen_all ast bc1)"

subsection \<open>The virtual machine\<close>

record vm =
  stack :: "int list"
  vars :: "string \<rightharpoonup> int"
  printed :: "string list"

text \<open>\<open>list.pop()\<close>: the last element appended, or \<open>IndexError\<close>.\<close>

fun pop :: "int list \<Rightarrow> error + (int \<times> int list)" where
  "pop [] = Inl IndexError"
| "pop (x # xs) = Inr (x, xs)"

text \<open>\<open>str\<close> of an integer, which is what \<open>print\<close> writes: its decimal representation.\<close>

fun digits_of :: "nat \<Rightarrow> string" where
  "digits_of n =
     (if n < 10 then [char_of (48 + n)]
      else digits_of (n div 10) @ [char_of (48 + n mod 10)])"

declare digits_of.simps [simp del]

definition str_int :: "int \<Rightarrow> string" where
  "str_int i = (if i < 0 then CHR ''-'' # digits_of (nat (- i)) else digits_of (nat i))"

text \<open>
  The two pops \<^verbatim>\<open>b, a = self.stack.pop(), self.stack.pop()\<close> of the arithmetic branches:
  \<open>b\<close> is popped first.
\<close>

definition pop2 :: "int list \<Rightarrow> error + (int \<times> int \<times> int list)" where
  "pop2 s =
     (case pop s of
        Inl e \<Rightarrow> Inl e
      | Inr (b, s1) \<Rightarrow> (case pop s1 of Inl e \<Rightarrow> Inl e | Inr (a, s2) \<Rightarrow> Inr (b, a, s2)))"

text \<open>One iteration of the loop of \<open>VM.run\<close>: the branch for the instruction's opcode.\<close>

fun exec_instr :: "instr \<Rightarrow> vm \<Rightarrow> error + vm" where
  "exec_instr (PUSH v) m = Inr (m\<lparr>stack := v # stack m\<rparr>)"
| "exec_instr (LOAD n) m =
     (case vars m n of
        None \<Rightarrow> Inl (KeyError n)
      | Some v \<Rightarrow> Inr (m\<lparr>stack := v # stack m\<rparr>))"
| "exec_instr (STORE n) m =
     (case pop (stack m) of
        Inl e \<Rightarrow> Inl e
      | Inr (val, s) \<Rightarrow> Inr (m\<lparr>stack := s, vars := (vars m)(n \<mapsto> val)\<rparr>))"
| "exec_instr ADD m =
     (case pop2 (stack m) of
        Inl e \<Rightarrow> Inl e
      | Inr (b, a, s) \<Rightarrow> Inr (m\<lparr>stack := (a + b) # s\<rparr>))"
| "exec_instr SUB m =
     (case pop2 (stack m) of
        Inl e \<Rightarrow> Inl e
      | Inr (b, a, s) \<Rightarrow> Inr (m\<lparr>stack := (a - b) # s\<rparr>))"
| "exec_instr MUL m =
     (case pop2 (stack m) of
        Inl e \<Rightarrow> Inl e
      | Inr (b, a, s) \<Rightarrow> Inr (m\<lparr>stack := (a * b) # s\<rparr>))"
| "exec_instr DIV m =
     (case pop2 (stack m) of
        Inl e \<Rightarrow> Inl e
      | Inr (b, a, s) \<Rightarrow>
          if b = 0 then Inl ZeroDivisionError else Inr (m\<lparr>stack := (a div b) # s\<rparr>))"
| "exec_instr PRINT m =
     (case pop (stack m) of
        Inl e \<Rightarrow> Inl e
      | Inr (v, s) \<Rightarrow> Inr (m\<lparr>stack := s, printed := printed m @ [str_int v]\<rparr>))"

text \<open>
  \<open>VM.run\<close>: the instructions in order. An exception ends the run; the lines printed
  before it stay printed, so they are returned with the error.
\<close>

fun run :: "instr list \<Rightarrow> vm \<Rightarrow> (error \<times> string list) + vm" where
  "run [] m = Inr m"
| "run (i # rest) m =
     (case exec_instr i m of Inl e \<Rightarrow> Inl (e, printed m) | Inr m' \<Rightarrow> run rest m')"

text \<open>The state \<open>VM.__init__\<close> sets up: empty stack, empty variable store, nothing printed.\<close>

definition vm_init :: vm where
  "vm_init = \<lparr>stack = [], vars = Map.empty, printed = []\<rparr>"

subsection \<open>The lexer\<close>

text \<open>
  The character tests \<open>str.isspace\<close>, \<open>str.isdigit\<close>, \<open>str.isalpha\<close> and \<open>str.isalnum\<close>
  on the code points 0 to 255. Besides the ASCII characters they accept a few others:
  the superscript digits (178, 179, 185) are digits, the fractions (188 to 190) are
  alphanumeric, the accented letters are letters. \<open>isdecimal\<close> holds for \<open>0\<close> to \<open>9\<close> only:
  these are the digits \<open>int\<close> converts.
\<close>

definition isspace :: "char \<Rightarrow> bool" where
  "isspace c = (of_char c \<in> {9, 10, 11, 12, 13, 28, 29, 30, 31, 32, 133, 160 :: nat})"

definition isdecimal :: "char \<Rightarrow> bool" where
  "isdecimal c = (48 \<le> (of_char c :: nat) \<and> (of_char c :: nat) \<le> 57)"

definition isdigit :: "char \<Rightarrow> bool" where
  "isdigit c = (isdecimal c \<or> of_char c \<in> {178, 179, 185 :: nat})"

definition isalpha :: "char \<Rightarrow> bool" where
  "isalpha c =
     (let n = (of_char c :: nat)
      in (65 \<le> n \<and> n \<le> 90) \<or> (97 \<le> n \<and> n \<le> 122) \<or> n = 170 \<or> n = 181 \<or> n = 186
         \<or> (192 \<le> n \<and> n \<le> 214) \<or> (216 \<le> n \<and> n \<le> 246) \<or> 248 \<le> n)"

definition isalnum :: "char \<Rightarrow> bool" where
  "isalnum c = (isalpha c \<or> isdigit c \<or> of_char c \<in> {188, 189, 190 :: nat})"

text \<open>
  The three loops
  \<^verbatim>\<open>while self.pos < len(self.text) and self.text[self.pos].isX(): self.pos += 1\<close>
  of \<open>next_token\<close>: the position where the loop stops.
\<close>

function scan :: "(char \<Rightarrow> bool) \<Rightarrow> string \<Rightarrow> nat \<Rightarrow> nat" where
  "scan isX s i = (if i < length s \<and> isX (s ! i) then scan isX s (i + 1) else i)"
  by pat_completeness auto
termination
  by (relation "measure (\<lambda>(isX, s, i). length s - i)") auto

declare scan.simps [simp del]

text \<open>
  \<open>int\<close> of a string of digits: its decimal value, or \<open>ValueError\<close> if a character is not
  one of \<open>0\<close> to \<open>9\<close>. (CPython's configurable limit on the number of digits converted
  between \<open>int\<close> and \<open>str\<close> is not modelled.)
\<close>

definition int_of_string :: "string \<Rightarrow> error + int" where
  "int_of_string ds =
     (if list_all isdecimal ds
      then Inr (foldl (\<lambda>acc c. 10 * acc + (int (of_char c) - 48)) 0 ds)
      else Inl ValueError)"

text \<open>
  A token is a type and a value. The lexer builds \<open>NUMBER\<close> tokens with an integer,
  \<open>IDENT\<close> tokens with a string, and the tokens of the other types with no value: \<open>Tok\<close>
  is applied to these other types only.
\<close>

datatype token = NumberTok int | IdentTok string | Tok toktype

fun ttype :: "token \<Rightarrow> toktype" where
  "ttype (NumberTok v) = T_NUMBER"
| "ttype (IdentTok w) = T_IDENT"
| "ttype (Tok t) = t"

record lexer =
  source :: string
  pos :: nat

text \<open>The slice \<^verbatim>\<open>self.text[start:self.pos]\<close>.\<close>

definition slice :: "string \<Rightarrow> nat \<Rightarrow> nat \<Rightarrow> string" where
  "slice s start stop = take (stop - start) (drop start s)"

text \<open>
  \<open>Lexer.next_token\<close>: the token returned and the lexer after the call, or the exception
  raised.
\<close>

definition next_token :: "lexer \<Rightarrow> error + (token \<times> lexer)" where
  "next_token lx =
     (let s = source lx;
          p = scan isspace s (pos lx)
      in if p \<ge> length s then Inr (Tok T_EOF, lx\<lparr>pos := p\<rparr>)
         else
           let c = s ! p
           in if isdigit c then
                (let q = scan isdigit s p
                 in case int_of_string (slice s p q) of
                      Inl e \<Rightarrow> Inl e
                    | Inr v \<Rightarrow> Inr (NumberTok v, lx\<lparr>pos := q\<rparr>))
              else if isalpha c then
                (let q = scan isalnum s p;
                     word = slice s p q
                 in if word = ''print'' then Inr (Tok T_PRINT, lx\<lparr>pos := q\<rparr>)
                    else Inr (IdentTok word, lx\<lparr>pos := q\<rparr>))
              else if c = CHR ''+'' then Inr (Tok T_PLUS, lx\<lparr>pos := p + 1\<rparr>)
              else if c = CHR ''-'' then Inr (Tok T_MINUS, lx\<lparr>pos := p + 1\<rparr>)
              else if c = CHR ''*'' then Inr (Tok T_TIMES, lx\<lparr>pos := p + 1\<rparr>)
              else if c = CHR ''/'' then Inr (Tok T_DIVIDE, lx\<lparr>pos := p + 1\<rparr>)
              else if c = CHR ''('' then Inr (Tok T_LPAREN, lx\<lparr>pos := p + 1\<rparr>)
              else if c = CHR '')'' then Inr (Tok T_RPAREN, lx\<lparr>pos := p + 1\<rparr>)
              else if c = CHR ''='' then Inr (Tok T_ASSIGN, lx\<lparr>pos := p + 1\<rparr>)
              else Inl (UnknownCharacter c))"

subsection \<open>The parser\<close>

record parser =
  lexer :: lexer
  token :: token

text \<open>\<open>Parser.__init__\<close>: the first token is read at once.\<close>

definition Parser :: "lexer \<Rightarrow> error + parser" where
  "Parser lx =
     (case next_token lx of
        Inl e \<Rightarrow> Inl e
      | Inr (t, lx') \<Rightarrow> Inr \<lparr>lexer = lx', token = t\<rparr>)"

definition eat :: "toktype \<Rightarrow> parser \<Rightarrow> error + parser" where
  "eat token_type p =
     (if ttype (token p) = token_type then
        (case next_token (lexer p) of
           Inl e \<Rightarrow> Inl e
         | Inr (t, lx') \<Rightarrow> Inr \<lparr>lexer = lx', token = t\<rparr>)
      else Inl (ExpectedGot token_type (ttype (token p))))"

text \<open>
  \<open>factor\<close>, \<open>term\<close> and \<open>expr\<close> call each other, and the loop of \<open>parse\<close> need not end.
  Each function below takes a first argument that bounds the depth of calls and the
  number of loop iterations it may still make; the result \<open>None\<close> says that the bound was
  reached. \<open>term_loop\<close> and \<open>expr_loop\<close> are the \<^verbatim>\<open>while\<close> loops of \<open>term\<close> and \<open>expr\<close>
  (\<open>term\<close> is written \<open>term_fn\<close>), with
  \<open>node\<close> as their loop variable. A result \<open>Some (Inr (node, p))\<close> is the node returned and
  the parser after the call.
\<close>

fun factor :: "nat \<Rightarrow> parser \<Rightarrow> (error + node \<times> parser) option"
  and term_fn :: "nat \<Rightarrow> parser \<Rightarrow> (error + node \<times> parser) option"
  and term_loop :: "nat \<Rightarrow> node \<Rightarrow> parser \<Rightarrow> (error + node \<times> parser) option"
  and expr :: "nat \<Rightarrow> parser \<Rightarrow> (error + node \<times> parser) option"
  and expr_loop :: "nat \<Rightarrow> node \<Rightarrow> parser \<Rightarrow> (error + node \<times> parser) option"
where
  "factor 0 p = None"
| "factor (Suc n) p =
     (case token p of
        NumberTok val \<Rightarrow>
          (case eat T_NUMBER p of
             Inl e \<Rightarrow> Some (Inl e)
           | Inr p1 \<Rightarrow> Some (Inr (Number val, p1)))
      | IdentTok name \<Rightarrow>
          (case eat T_IDENT p of
             Inl e \<Rightarrow> Some (Inl e)
           | Inr p1 \<Rightarrow> Some (Inr (Var name, p1)))
      | Tok t \<Rightarrow>
          if t = T_LPAREN then
            (case eat T_LPAREN p of
               Inl e \<Rightarrow> Some (Inl e)
             | Inr p1 \<Rightarrow>
                 (case expr n p1 of
                    None \<Rightarrow> None
                  | Some (Inl e) \<Rightarrow> Some (Inl e)
                  | Some (Inr (node, p2)) \<Rightarrow>
                      (case eat T_RPAREN p2 of
                         Inl e \<Rightarrow> Some (Inl e)
                       | Inr p3 \<Rightarrow> Some (Inr (node, p3)))))
          else Some (Inr (NoneNode, p)))"
| "term_fn 0 p = None"
| "term_fn (Suc n) p =
     (case factor n p of
        None \<Rightarrow> None
      | Some (Inl e) \<Rightarrow> Some (Inl e)
      | Some (Inr (node, p1)) \<Rightarrow> term_loop n node p1)"
| "term_loop 0 node p = None"
| "term_loop (Suc n) node p =
     (if ttype (token p) = T_TIMES \<or> ttype (token p) = T_DIVIDE then
        (let op = ttype (token p)
         in case eat op p of
              Inl e \<Rightarrow> Some (Inl e)
            | Inr p1 \<Rightarrow>
                (case factor n p1 of
                   None \<Rightarrow> None
                 | Some (Inl e) \<Rightarrow> Some (Inl e)
                 | Some (Inr (right, p2)) \<Rightarrow> term_loop n (BinOp op node right) p2))
      else Some (Inr (node, p)))"
| "expr 0 p = None"
| "expr (Suc n) p =
     (case term_fn n p of
        None \<Rightarrow> None
      | Some (Inl e) \<Rightarrow> Some (Inl e)
      | Some (Inr (node, p1)) \<Rightarrow> expr_loop n node p1)"
| "expr_loop 0 node p = None"
| "expr_loop (Suc n) node p =
     (if ttype (token p) = T_PLUS \<or> ttype (token p) = T_MINUS then
        (let op = ttype (token p)
         in case eat op p of
              Inl e \<Rightarrow> Some (Inl e)
            | Inr p1 \<Rightarrow>
                (case term_fn n p1 of
                   None \<Rightarrow> None
                 | Some (Inl e) \<Rightarrow> Some (Inl e)
                 | Some (Inr (right, p2)) \<Rightarrow> expr_loop n (BinOp op node right) p2))
      else Some (Inr (node, p)))"

text \<open>
  \<open>Parser.statement\<close>. Like \<open>factor\<close> it has no \<^verbatim>\<open>else\<close> branch: on a token that is
  neither \<open>IDENT\<close> nor \<open>PRINT\<close> it returns \<open>None\<close> and leaves the parser as it is.
\<close>

definition statement :: "nat \<Rightarrow> parser \<Rightarrow> (error + node \<times> parser) option" where
  "statement n p =
     (case token p of
        IdentTok varname \<Rightarrow>
          (case eat T_IDENT p of
             Inl e \<Rightarrow> Some (Inl e)
           | Inr p1 \<Rightarrow>
               (case eat T_ASSIGN p1 of
                  Inl e \<Rightarrow> Some (Inl e)
                | Inr p2 \<Rightarrow>
                    (case expr n p2 of
                       None \<Rightarrow> None
                     | Some (Inl e) \<Rightarrow> Some (Inl e)
                     | Some (Inr (e, p3)) \<Rightarrow> Some (Inr (Assign varname e, p3)))))
      | Tok t \<Rightarrow>
          if t = T_PRINT then
            (case eat T_PRINT p of
               Inl e \<Rightarrow> Some (Inl e)
             | Inr p1 \<Rightarrow>
                 (case expr n p1 of
                    None \<Rightarrow> None
                  | Some (Inl e) \<Rightarrow> Some (Inl e)
                  | Some (Inr (e, p2)) \<Rightarrow> Some (Inr (Print e, p2))))
          else Some (Inr (NoneNode, p))
      | NumberTok val \<Rightarrow> Some (Inr (NoneNode, p)))"

text \<open>
  The loop of \<open>Parser.parse\<close>, with the list \<open>statements\<close> as its loop variable, and
  \<open>parse\<close> itself, which starts it with the empty list.
\<close>

fun parse_loop :: "nat \<Rightarrow> parser \<Rightarrow> node list \<Rightarrow> (error + node list) option" where
  "parse_loop 0 p statements = None"
| "parse_loop (Suc n) p statements =
     (if ttype (token p) \<noteq> T_EOF then
        (case statement n p of
           None \<Rightarrow> None
         | Some (Inl e) \<Rightarrow> Some (Inl e)
         | Some (Inr (stmt, p1)) \<Rightarrow> parse_loop n p1 (statements @ [stmt]))
      else Some (Inr statements))"

definition parse :: "nat \<Rightarrow> parser \<Rightarrow> (error + node list) option" where
  "parse n p = parse_loop n p []"

subsection \<open>The pipeline\<close>

text \<open>
  \<open>run_compiler\<close>: \<open>Some (Inr lines)\<close> when the run ends normally, having printed \<open>lines\<close>;
  \<open>Some (Inl (e, lines))\<close> when the exception \<open>e\<close> ends it after \<open>lines\<close> were printed;
  \<open>None\<close> when the parser has not returned within the bound \<open>n\<close>.
\<close>

definition run_compiler :: "nat \<Rightarrow> string \<Rightarrow> ((error \<times> string list) + string list) option" where
  "run_compiler n src =
     (case Parser \<lparr>source = src, pos = 0\<rparr> of
        Inl e \<Rightarrow> Some (Inl (e, []))
      | Inr p \<Rightarrow>
          (case parse n p of
             None \<Rightarrow> None
           | Some (Inl e) \<Rightarrow> Some (Inl (e, []))
           | Some (Inr ast) \<Rightarrow>
               (case gen_all ast [] of
                  Inl e \<Rightarrow> Some (Inl (e, []))
                | Inr bc \<Rightarrow>
                    (case run bc vm_init of
                       Inl (e, lines) \<Rightarrow> Some (Inl (e, lines))
                     | Inr m \<Rightarrow> Some (Inr (printed m))))))"

subsection \<open>Well-formed syntax trees and their meaning\<close>

text \<open>
  The trees of the grammar: an expression is a number, a variable, or one of the four
  operators applied to two expressions; a statement is an assignment or a \<open>print\<close> of an
  expression.
\<close>

fun wf_expr :: "node \<Rightarrow> bool" where
  "wf_expr (Number v) = True"
| "wf_expr (Var n) = True"
| "wf_expr (BinOp op l r) =
     ((op = T_PLUS \<or> op = T_MINUS \<or> op = T_TIMES \<or> op = T_DIVIDE) \<and> wf_expr l \<and> wf_expr r)"
| "wf_expr _ = False"

fun wf_stmt :: "node \<Rightarrow> bool" where
  "wf_stmt (Assign n e) = wf_expr e"
| "wf_stmt (Print e) = wf_expr e"
| "wf_stmt _ = False"

text \<open>
  The value the specification gives to an expression, written from its words and not
  from the code: the operators are the arithmetic ones, \<open>/\<close> is the quotient rounded
  toward negative infinity (the floor of the real quotient), and an expression has no
  value when it refers to a variable that is not bound or divides by zero.
  \<open>stmt_effect\<close> and \<open>program_effect\<close> are the specification's meaning of statements: an
  assignment binds the value to the name, \<open>print\<close> adds one line, the decimal form of the
  value, to the output.
\<close>

fun binop_value :: "toktype \<Rightarrow> int \<Rightarrow> int \<Rightarrow> int option" where
  "binop_value T_PLUS a b = Some (a + b)"
| "binop_value T_MINUS a b = Some (a - b)"
| "binop_value T_TIMES a b = Some (a * b)"
| "binop_value T_DIVIDE a b = (if b = 0 then None else Some \<lfloor>real_of_int a / real_of_int b\<rfloor>)"
| "binop_value _ a b = None"

fun expr_value :: "node \<Rightarrow> (string \<rightharpoonup> int) \<Rightarrow> int option" where
  "expr_value (Number v) env = Some v"
| "expr_value (Var n) env = env n"
| "expr_value (BinOp op l r) env =
     (case expr_value l env of
        None \<Rightarrow> None
      | Some a \<Rightarrow> (case expr_value r env of None \<Rightarrow> None | Some b \<Rightarrow> binop_value op a b))"
| "expr_value _ env = None"

fun stmt_effect :: "node \<Rightarrow> (string \<rightharpoonup> int) \<times> string list \<Rightarrow> ((string \<rightharpoonup> int) \<times> string list) option" where
  "stmt_effect (Assign n e) (env, out) =
     (case expr_value e env of None \<Rightarrow> None | Some v \<Rightarrow> Some (env(n \<mapsto> v), out))"
| "stmt_effect (Print e) (env, out) =
     (case expr_value e env of None \<Rightarrow> None | Some v \<Rightarrow> Some (env, out @ [str_int v]))"
| "stmt_effect _ (env, out) = None"

fun program_effect :: "node list \<Rightarrow> (string \<rightharpoonup> int) \<times> string list \<Rightarrow> ((string \<rightharpoonup> int) \<times> string list) option" where
  "program_effect [] st = Some st"
| "program_effect (s # ss) st =
     (case stmt_effect s st of None \<Rightarrow> None | Some st' \<Rightarrow> program_effect ss st')"

section \<open>Properties of the virtual machine\<close>

lemma pop2_two [simp]: "pop2 (b # a # s) = Inr (b, a, s)"
  by (simp add: pop2_def)

lemma pop2_short [simp]: "pop2 [] = Inl IndexError" "pop2 [b] = Inl IndexError"
  by (simp_all add: pop2_def)

lemma str_int_small: "0 \<le> i \<Longrightarrow> i < 10 \<Longrightarrow> str_int i = [char_of (48 + nat i)]"
  by (simp add: str_int_def digits_of.simps)

text \<open>
  Claim C10. The instructions \<open>ADD\<close>, \<open>SUB\<close> and \<open>MUL\<close> work on unbounded integers: for
  all operands \<open>a\<close> and \<open>b\<close>, whatever their size, they replace the two top values by the
  exact sum, difference and product. No word size takes part: for every width \<open>w\<close> the
  machine computes \<open>2 ^ w + 2 ^ w\<close> and \<open>2 ^ w * 2 ^ w\<close> as \<open>2 ^ (w + 1)\<close> and
  \<open>2 ^ (2 * w)\<close>, which a \<open>w\<close>-bit register could not hold.
\<close>

theorem arithmetic_exact:
  "exec_instr ADD (m\<lparr>stack := b # a # s\<rparr>) = Inr (m\<lparr>stack := (a + b) # s\<rparr>)
   \<and> exec_instr SUB (m\<lparr>stack := b # a # s\<rparr>) = Inr (m\<lparr>stack := (a - b) # s\<rparr>)
   \<and> exec_instr MUL (m\<lparr>stack := b # a # s\<rparr>) = Inr (m\<lparr>stack := (a * b) # s\<rparr>)
   \<and> run [PUSH (2 ^ w), PUSH (2 ^ w), ADD] vm_init = Inr (vm_init\<lparr>stack := [2 ^ (w + 1)]\<rparr>)
   \<and> run [PUSH (2 ^ w), PUSH (2 ^ w), MUL] vm_init = Inr (vm_init\<lparr>stack := [2 ^ (2 * w)]\<rparr>)"
proof -
  have two: "(2::int) ^ w + 2 ^ w = 2 ^ (w + 1)"
    by simp
  have sq: "(2::int) ^ w * 2 ^ w = 2 ^ (2 * w)"
    by (simp add: mult_2 power_add)
  have "run [PUSH (2 ^ w), PUSH (2 ^ w), ADD] vm_init = Inr (vm_init\<lparr>stack := [2 ^ w + 2 ^ w]\<rparr>)"
    by (simp add: vm_init_def)
  moreover have "run [PUSH (2 ^ w), PUSH (2 ^ w), MUL] vm_init = Inr (vm_init\<lparr>stack := [2 ^ w * 2 ^ w]\<rparr>)"
    by (simp add: vm_init_def)
  ultimately show ?thesis
    unfolding two sq by simp
qed

section \<open>Properties of the code generator\<close>

lemma gen_append: "gen e bc = (case gen e [] of Inl err \<Rightarrow> Inl err | Inr c \<Rightarrow> Inr (bc @ c))"
proof (induction e arbitrary: bc)
  case (BinOp op l r)
  show ?case
  proof (cases "gen l []")
    case (Inl e)
    then have "gen l bc = Inl e" by (subst BinOp.IH(1)) simp
    with Inl show ?thesis by simp
  next
    case (Inr cl)
    then have l: "gen l bc = Inr (bc @ cl)" by (subst BinOp.IH(1)) simp
    show ?thesis
    proof (cases "gen r []")
      case (Inl e)
      then have "gen r (bc @ cl) = Inl e" "gen r cl = Inl e"
        by (subst BinOp.IH(2), simp)+
      with Inr l show ?thesis by simp
    next
      case r: (Inr cr)
      then have "gen r (bc @ cl) = Inr (bc @ cl @ cr)" "gen r cl = Inr (cl @ cr)"
        by (subst BinOp.IH(2), simp)+
      with Inr l show ?thesis by (simp split: option.splits)
    qed
  qed
next
  case (Assign n e)
  show ?case using Assign.IH [of bc] by (cases "gen e []") simp_all
next
  case (Print e)
  show ?case using Print.IH [of bc] by (cases "gen e []") simp_all
qed simp_all

lemma gen_all_append:
  "gen_all ast bc = (case gen_all ast [] of Inl err \<Rightarrow> Inl err | Inr c \<Rightarrow> Inr (bc @ c))"
proof (induction ast arbitrary: bc)
  case Nil
  show ?case by simp
next
  case (Cons s ast)
  show ?case
    apply (simp only: gen_all.simps)
    apply (subst gen_append)
    apply (cases "gen s []")
     apply simp
    apply simp
    apply (subst Cons.IH)
    apply (subst (2) Cons.IH)
    apply (simp split: sum.splits)
    done
qed

lemma run_append:
  "run (xs @ ys) m = (case run xs m of Inl e \<Rightarrow> Inl e | Inr m' \<Rightarrow> run ys m')"
  by (induction xs arbitrary: m) (simp_all split: sum.splits)

lemma wf_expr_gen: "wf_expr e \<Longrightarrow> \<exists>c. gen e [] = Inr c"
proof (induction e)
  case (BinOp op l r)
  then obtain cl cr where "gen l [] = Inr cl" "gen r [] = Inr cr" by auto
  moreover from BinOp.prems obtain i where "ops op = Some i" by auto
  ultimately show ?case by (subst gen.simps, simp, subst gen_append, simp)
qed simp_all

lemma floor_div: "\<lfloor>real_of_int a / real_of_int b\<rfloor> = a div b"
  by (simp add: floor_divide_of_int_eq)

lemma gen_expr_correct:
  "wf_expr e \<Longrightarrow> gen e [] = Inr c \<Longrightarrow> expr_value e (vars m) = Some v
   \<Longrightarrow> run c m = Inr (m\<lparr>stack := v # stack m\<rparr>)"
proof (induction e arbitrary: c m v)
  case (Number x)
  then show ?case by auto
next
  case (Var x)
  then show ?case by auto
next
  case (BinOp op l r)
  from BinOp.prems(1) have wl: "wf_expr l" and wr: "wf_expr r" by simp_all
  from wl obtain cl where cl: "gen l [] = Inr cl" using wf_expr_gen by blast
  from wr obtain cr where cr: "gen r [] = Inr cr" using wf_expr_gen by blast
  from BinOp.prems(3) obtain a b where a: "expr_value l (vars m) = Some a"
    and b: "expr_value r (vars m) = Some b" and ab: "binop_value op a b = Some v"
    by (auto split: option.splits)
  from ab obtain i where i: "ops op = Some i" by (cases op) simp_all
  have c: "c = cl @ cr @ [i]"
    using BinOp.prems(2) cl cr i by (simp add: gen_append [of r cl])
  have rl: "run cl m = Inr (m\<lparr>stack := a # stack m\<rparr>)"
    by (rule BinOp.IH(1) [OF wl cl a])
  have rr: "run cr (m\<lparr>stack := a # stack m\<rparr>) = Inr (m\<lparr>stack := b # a # stack m\<rparr>)"
    using BinOp.IH(2) [OF wr cr, of "m\<lparr>stack := a # stack m\<rparr>" b] b by simp
  have "exec_instr i (m\<lparr>stack := b # a # stack m\<rparr>) = Inr (m\<lparr>stack := v # stack m\<rparr>)"
    using ab i by (cases op) (simp_all add: floor_div split: if_splits)
  then show ?case by (simp add: c run_append rl rr)
qed simp_all

end
